theory Spec2Isabelle
  imports Main "HOL-Library.Word"
begin

section \<open>Values exchanged with the object store\<close>

type_synonym bytes = "8 word list"

text \<open>
  The value bound by a \<^verbatim>\<open>catch (e)\<close> clause.  The driver reads two properties of it:
  \<^verbatim>\<open>err.name\<close> in \<^verbatim>\<open>handleError\<close> and \<^verbatim>\<open>e.statusCode\<close> in \<^verbatim>\<open>exists\<close>.  A property that
  is absent reads as \<^verbatim>\<open>undefined\<close>, which is \<open>None\<close> here.
\<close>

record native_error =
  name :: string
  statusCode :: "int option"

text \<open>
  What the JavaScript runtime throws when \<^verbatim>\<open>undefined\<close> is iterated or one of its
  properties is read.
\<close>

definition TypeError :: native_error where
  "TypeError = \<lparr>name = ''TypeError'', statusCode = None\<rparr>"

text \<open>
  The four exception classes imported from the storage abstraction.  Each is built from
  the original error first, then the arguments \<^verbatim>\<open>handleError\<close> passes.
\<close>

datatype storage_exception =
    NoSuchBucketException native_error string
  | FileNotFoundException native_error string
  | PermissionMissingException native_error string
  | UnknownException native_error string string

fun cause :: "storage_exception \<Rightarrow> native_error" where
  "cause (NoSuchBucketException err b) = err"
| "cause (FileNotFoundException err p) = err"
| "cause (PermissionMissingException err p) = err"
| "cause (UnknownException err n p) = err"

text \<open>
  What a driver method can raise: an exception built by \<^verbatim>\<open>handleError\<close>, or the error
  of the backend as it was thrown.
\<close>

datatype thrown = Translated storage_exception | Native native_error

text \<open>\<^verbatim>\<open>Buffer | NodeJS.ReadableStream | string\<close>, the content given to \<^verbatim>\<open>put\<close>.\<close>

datatype content = BufferContent bytes | StreamContent bytes | StringContent string

subsection \<open>Requests\<close>

record bucket_params =
  Bucket :: string

record object_params = bucket_params +
  Key :: string

record copy_params = object_params +
  CopySource :: string

record put_params = object_params +
  Body_in :: content

record sign_params = object_params +
  Expires :: int

record list_params = bucket_params +
  Prefix :: string
  ContinuationToken :: "string option"
  MaxKeys :: nat

record SignedUrlOptions =
  expiresIn :: "int option"

subsection \<open>Results of the backend\<close>

text \<open>
  The results of copy, delete and put are opaque to the driver, which only stores them
  in \<^verbatim>\<open>raw\<close>; they are identified here by the entity tag the store reports.
\<close>

datatype copy_output = CopyObjectOutput string
datatype delete_output = DeleteObjectOutput string
datatype put_output = PutObjectOutput string

text \<open>
  \<^verbatim>\<open>ContentLength\<close> and \<^verbatim>\<open>LastModified\<close> are optional in the result of a head request;
  the casts \<^verbatim>\<open>as number\<close> and \<^verbatim>\<open>as Date\<close> do nothing at run time.
\<close>

record head_output =
  ContentLength :: "int option"
  LastModified :: "int option"

text \<open>
  The body of a get result is a stream; \<^verbatim>\<open>transformToByteArray\<close> reads it to the end and
  either gives its bytes or fails.  \<^verbatim>\<open>Body\<close> itself is optional.
\<close>

datatype sdk_stream = SdkStream (transformToByteArray: "native_error + bytes")

record get_output =
  Body :: "sdk_stream option"

text \<open>An entry of a listing page; \<^verbatim>\<open>Key\<close> is optional there.\<close>

record s3_object =
  obj_Key :: "string option"
  obj_Size :: nat

record list_output =
  Contents :: "s3_object list option"
  NextContinuationToken :: "string option"

text \<open>
  A promise that has not been awaited: the value the write settles to, a rejection
  (\<open>Inl\<close>) or the result of the store (\<open>Inr\<close>).
\<close>

type_synonym put_promise = "native_error + put_output"

text \<open>
  The field \<^verbatim>\<open>raw\<close> of a response has type \<^verbatim>\<open>unknown\<close>; these are the values the driver
  stores there.
\<close>

datatype raw_value =
    RawCopy copy_output
  | RawDelete delete_output
  | RawHead head_output
  | RawGet get_output
  | RawPromise put_promise
  | RawUrl string
  | RawObject s3_object
  | RawError native_error
  | RawUndefined

subsection \<open>Response envelopes\<close>

record Response =
  raw :: raw_value

record DeleteResponse = Response +
  wasDeleted :: "bool option"

record ExistsResponse = Response +
  existsFlag :: bool

record 'a ContentResponse = Response +
  content :: 'a

record SignedUrlResponse = Response +
  signedUrl :: string

record StatResponse = Response +
  size_of :: "int option"
  modified :: "int option"

record FileListResponse = Response +
  path :: "string option"

section \<open>The client of the object store\<close>

text \<open>
  The store is outside the program.  A call takes the request and the state of the store
  and gives the outcome awaited by the driver, a rejection (\<open>Inl\<close>) or a result
  (\<open>Inr\<close>), and the state after the call.  \<^verbatim>\<open>putObject\<close> is the one call the driver does
  not await: it gives a promise, unless the call itself throws.  \<open>presign\<close> is the
  function \<^verbatim>\<open>getSignedUrl\<close> of the request presigner.
\<close>

record 's S3 =
  copyObject :: "copy_params \<Rightarrow> 's \<Rightarrow> (native_error + copy_output) \<times> 's"
  deleteObject :: "object_params \<Rightarrow> 's \<Rightarrow> (native_error + delete_output) \<times> 's"
  headObject :: "object_params \<Rightarrow> 's \<Rightarrow> (native_error + head_output) \<times> 's"
  getObject :: "object_params \<Rightarrow> 's \<Rightarrow> (native_error + get_output) \<times> 's"
  putObject :: "put_params \<Rightarrow> 's \<Rightarrow> (native_error + put_promise) \<times> 's"
  listObjectsV2 :: "list_params \<Rightarrow> 's \<Rightarrow> (native_error + list_output) \<times> 's"
  presign :: "sign_params \<Rightarrow> SignedUrlOptions \<Rightarrow> 's \<Rightarrow> (native_error + string) \<times> 's"

section \<open>The driver\<close>

fun handleError :: "native_error \<Rightarrow> string \<Rightarrow> string \<Rightarrow> storage_exception" where
  "handleError err pathname bucketname =
     (if name err = ''NoSuchBucket'' then NoSuchBucketException err bucketname
      else if name err = ''NoSuchKey'' then FileNotFoundException err pathname
      else if name err = ''AllAccessDisabled'' then PermissionMissingException err pathname
      else UnknownException err (name err) pathname)"

record 's AwsS3Storage =
  driver :: "'s S3"
  bucket :: string

definition copy ::
  "'s AwsS3Storage \<Rightarrow> string \<Rightarrow> string \<Rightarrow> 's \<Rightarrow> (thrown + Response) \<times> 's" where
  "copy st src dest s =
     (case copyObject (driver st)
             \<lparr>Bucket = bucket st, Key = dest, CopySource = ''/'' @ bucket st @ ''/'' @ src\<rparr> s of
        (Inr result, s') \<Rightarrow> (Inr \<lparr>raw = RawCopy result\<rparr>, s')
      | (Inl e, s') \<Rightarrow> (Inl (Translated (handleError e src (bucket st))), s'))"

definition delete ::
  "'s AwsS3Storage \<Rightarrow> string \<Rightarrow> 's \<Rightarrow> (thrown + DeleteResponse) \<times> 's" where
  "delete st location s =
     (let params = \<lparr>Bucket = bucket st, Key = location\<rparr> in
      case deleteObject (driver st) params s of
        (Inr result, s') \<Rightarrow> (Inr \<lparr>raw = RawDelete result, wasDeleted = None\<rparr>, s')
      | (Inl e, s') \<Rightarrow> (Inl (Translated (handleError e location (bucket st))), s'))"

definition exists ::
  "'s AwsS3Storage \<Rightarrow> string \<Rightarrow> 's \<Rightarrow> (thrown + ExistsResponse) \<times> 's" where
  "exists st location s =
     (case headObject (driver st) \<lparr>Bucket = bucket st, Key = location\<rparr> s of
        (Inr result, s') \<Rightarrow> (Inr \<lparr>raw = RawHead result, existsFlag = True\<rparr>, s')
      | (Inl e, s') \<Rightarrow>
          (if statusCode e = Some 404 then (Inr \<lparr>raw = RawError e, existsFlag = False\<rparr>, s')
           else (Inl (Translated (handleError e location (bucket st))), s')))"

definition getBuffer ::
  "'s AwsS3Storage \<Rightarrow> string \<Rightarrow> 's \<Rightarrow> (thrown + bytes ContentResponse) \<times> 's" where
  "getBuffer st location s =
     (case getObject (driver st) \<lparr>Bucket = bucket st, Key = location\<rparr> s of
        (Inl e, s') \<Rightarrow> (Inl (Translated (handleError e location (bucket st))), s')
      | (Inr result, s') \<Rightarrow>
          (case Body result of
             None \<Rightarrow> (Inl (Translated (handleError TypeError location (bucket st))), s')
           | Some stream \<Rightarrow>
               (case transformToByteArray stream of
                  Inl e \<Rightarrow> (Inl (Translated (handleError e location (bucket st))), s')
                | Inr body \<Rightarrow> (Inr \<lparr>raw = RawGet result, content = body\<rparr>, s'))))"

text \<open>
  \<^verbatim>\<open>Buffer.toString(encoding)\<close> belongs to the runtime and is a parameter, \<open>toString\<close>.
  An omitted encoding (\<open>None\<close>) takes the default of the signature, \<^verbatim>\<open>'utf-8'\<close>.  The call
  of \<^verbatim>\<open>getBuffer\<close> is outside any \<^verbatim>\<open>try\<close>, so what it raises passes through.
\<close>

type_synonym BufferEncoding = string

definition get ::
  "(bytes \<Rightarrow> BufferEncoding \<Rightarrow> string) \<Rightarrow> 's AwsS3Storage \<Rightarrow> string \<Rightarrow> BufferEncoding option
     \<Rightarrow> 's \<Rightarrow> (thrown + string ContentResponse) \<times> 's" where
  "get toString st location encoding_opt s =
     (let encoding = (case encoding_opt of None \<Rightarrow> ''utf-8'' | Some enc \<Rightarrow> enc) in
      case getBuffer st location s of
        (Inl t, s') \<Rightarrow> (Inl t, s')
      | (Inr bufferResult, s') \<Rightarrow>
          (Inr \<lparr>raw = raw bufferResult, content = toString (content bufferResult) encoding\<rparr>, s'))"

definition getSignedUrl ::
  "'s AwsS3Storage \<Rightarrow> string \<Rightarrow> SignedUrlOptions \<Rightarrow> 's \<Rightarrow> (thrown + SignedUrlResponse) \<times> 's" where
  "getSignedUrl st location options s =
     (let expires = (case expiresIn options of None \<Rightarrow> 900 | Some n \<Rightarrow> n);
          params = \<lparr>Bucket = bucket st, Key = location, Expires = expires\<rparr> in
      case presign (driver st) params options s of
        (Inr result, s') \<Rightarrow> (Inr \<lparr>raw = RawUrl result, signedUrl = result\<rparr>, s')
      | (Inl e, s') \<Rightarrow> (Inl (Translated (handleError e location (bucket st))), s'))"

definition getStat ::
  "'s AwsS3Storage \<Rightarrow> string \<Rightarrow> 's \<Rightarrow> (thrown + StatResponse) \<times> 's" where
  "getStat st location s =
     (let params = \<lparr>Bucket = bucket st, Key = location\<rparr> in
      case headObject (driver st) params s of
        (Inr result, s') \<Rightarrow>
          (Inr \<lparr>raw = RawHead result, size_of = ContentLength result,
                modified = LastModified result\<rparr>, s')
      | (Inl e, s') \<Rightarrow> (Inl (Translated (handleError e location (bucket st))), s'))"

text \<open>\<^verbatim>\<open>getStream\<close> has no \<^verbatim>\<open>try\<close>: a rejection of the backend leaves it as it is.\<close>

definition getStream ::
  "'s AwsS3Storage \<Rightarrow> string \<Rightarrow> 's \<Rightarrow> (thrown + sdk_stream option) \<times> 's" where
  "getStream st location s =
     (let params = \<lparr>Bucket = bucket st, Key = location\<rparr> in
      case getObject (driver st) params s of
        (Inr res, s') \<Rightarrow> (Inr (Body res), s')
      | (Inl e, s') \<Rightarrow> (Inl (Native e), s'))"

text \<open>Awaiting a method and going on with its result, or raising what it raised.\<close>

definition await ::
  "('s \<Rightarrow> (thrown + 'a) \<times> 's) \<Rightarrow> ('a \<Rightarrow> 's \<Rightarrow> (thrown + 'b) \<times> 's) \<Rightarrow> 's \<Rightarrow> (thrown + 'b) \<times> 's" where
  "await m k s = (case m s of (Inl t, s') \<Rightarrow> (Inl t, s') | (Inr x, s') \<Rightarrow> k x s')"

definition move ::
  "'s AwsS3Storage \<Rightarrow> string \<Rightarrow> string \<Rightarrow> 's \<Rightarrow> (thrown + Response) \<times> 's" where
  "move st src dest =
     await (copy st src dest) (\<lambda>_.
     await (delete st src) (\<lambda>_.
     (\<lambda>s. (Inr \<lparr>raw = RawUndefined\<rparr>, s))))"

text \<open>
  \<^verbatim>\<open>put\<close> does not await \<^verbatim>\<open>putObject\<close>: the \<^verbatim>\<open>catch\<close> sees only what the call itself
  throws, and the promise goes into \<^verbatim>\<open>raw\<close> whatever it settles to.
\<close>

definition put ::
  "'s AwsS3Storage \<Rightarrow> string \<Rightarrow> content \<Rightarrow> 's \<Rightarrow> (thrown + Response) \<times> 's" where
  "put st location cont s =
     (case putObject (driver st) \<lparr>Bucket = bucket st, Key = location, Body_in = cont\<rparr> s of
        (Inr result, s') \<Rightarrow> (Inr \<lparr>raw = RawPromise result\<rparr>, s')
      | (Inl e, s') \<Rightarrow> (Inl (Translated (handleError e location (bucket st))), s'))"

text \<open>
  \<^verbatim>\<open>flatList\<close> is a generator.  The model consumes it to the end: the entries yielded, in
  order, and the exception that ended it, if one did.  A continuation token is tested
  for truthiness, so the empty string ends the loop as \<^verbatim>\<open>undefined\<close> does.  The loop runs
  as long as the store hands out tokens, so the result is optional: \<open>None\<close> is a loop that
  never ends.
\<close>

definition truthy :: "string option \<Rightarrow> bool" where
  "truthy tok = (case tok of None \<Rightarrow> False | Some t \<Rightarrow> t \<noteq> [])"

definition entry :: "s3_object \<Rightarrow> FileListResponse" where
  "entry file = \<lparr>raw = RawObject file, path = obj_Key file\<rparr>"

partial_function (option) flatList_loop ::
  "'s AwsS3Storage \<Rightarrow> string \<Rightarrow> string option \<Rightarrow> FileListResponse list \<Rightarrow> 's
     \<Rightarrow> ((FileListResponse list \<times> thrown option) \<times> 's) option" where
  "flatList_loop st prefix continuationToken yielded s =
     (case listObjectsV2 (driver st)
             \<lparr>Bucket = bucket st, Prefix = prefix, ContinuationToken = continuationToken,
              MaxKeys = 1000\<rparr> s of
        (Inl e, s') \<Rightarrow>
          Some ((yielded, Some (Translated (handleError e prefix (bucket st)))), s')
      | (Inr response, s') \<Rightarrow>
          (case Contents response of
             None \<Rightarrow>
               Some ((yielded, Some (Translated (handleError TypeError prefix (bucket st)))), s')
           | Some files \<Rightarrow>
               (if truthy (NextContinuationToken response)
                then flatList_loop st prefix (NextContinuationToken response)
                       (yielded @ map entry files) s'
                else Some ((yielded @ map entry files, None), s'))))"

declare flatList_loop.simps [code]

definition flatList ::
  "'s AwsS3Storage \<Rightarrow> string \<Rightarrow> 's \<Rightarrow> ((FileListResponse list \<times> thrown option) \<times> 's) option" where
  "flatList st prefix s = flatList_loop st prefix None [] s"

text \<open>
  The requests of a listing run that starts in state \<open>s\<close>: the first, without a
  token, in \<open>s\<close>; and after each page that had \<^verbatim>\<open>Contents\<close> and a truthy token, the
  next, with that token, in the state the page was received in.  An entry comes from a
  page when it was made from an object in the \<^verbatim>\<open>Contents\<close> of the answer to one of these
  requests.
\<close>

inductive requested :: "'s AwsS3Storage \<Rightarrow> string \<Rightarrow> 's \<Rightarrow> string option \<Rightarrow> 's \<Rightarrow> bool"
  for st :: "'s AwsS3Storage" and prefix :: string and s :: 's where
    first: "requested st prefix s None s"
  | following:
      "requested st prefix s tok s1 \<Longrightarrow>
       listObjectsV2 (driver st)
         \<lparr>Bucket = bucket st, Prefix = prefix, ContinuationToken = tok, MaxKeys = 1000\<rparr> s1
         = (Inr response, s2) \<Longrightarrow>
       Contents response = Some files \<Longrightarrow>
       truthy (NextContinuationToken response) \<Longrightarrow>
       requested st prefix s (NextContinuationToken response) s2"

code_pred requested .

definition from_page :: "'s AwsS3Storage \<Rightarrow> string \<Rightarrow> 's \<Rightarrow> FileListResponse \<Rightarrow> bool" where
  "from_page st prefix s e \<longleftrightarrow>
     (\<exists>tok s1 response s2 files f.
        requested st prefix s tok s1 \<and>
        listObjectsV2 (driver st)
          \<lparr>Bucket = bucket st, Prefix = prefix, ContinuationToken = tok, MaxKeys = 1000\<rparr> s1
          = (Inr response, s2) \<and>
        Contents response = Some files \<and> f \<in> set files \<and>
        raw e = RawObject f \<and> path e = obj_Key f)"

section \<open>The specification of reading text\<close>

text \<open>
  What the specification says of \<^verbatim>\<open>get\<close>, in its own words: \<^verbatim>\<open>getBuffer\<close> followed by
  decoding the bytes as text with the requested encoding, UTF-8 when none is given, the
  raw result being passed on.
\<close>

definition decoded ::
  "(bytes \<Rightarrow> BufferEncoding \<Rightarrow> string) \<Rightarrow> BufferEncoding \<Rightarrow> bytes ContentResponse
     \<Rightarrow> string ContentResponse" where
  "decoded toString encoding r = \<lparr>raw = raw r, content = toString (content r) encoding\<rparr>"

definition get_spec ::
  "(bytes \<Rightarrow> BufferEncoding \<Rightarrow> string) \<Rightarrow> 's AwsS3Storage \<Rightarrow> string \<Rightarrow> BufferEncoding option
     \<Rightarrow> 's \<Rightarrow> (thrown + string ContentResponse) \<times> 's" where
  "get_spec toString st location encoding_opt =
     await (getBuffer st location)
       (\<lambda>r s. (Inr (decoded toString (case encoding_opt of None \<Rightarrow> ''utf-8'' | Some enc \<Rightarrow> enc) r), s))"

section \<open>A store in memory\<close>

text \<open>
  A small object store to run the driver on: the objects of one bucket in listing order,
  the writes that have been requested and are not yet visible, and the calls received so
  far.  \<open>fault\<close> makes chosen calls fail.  A call that fails changes no object.  As the
  store behind the client does, a copy leaves its source in place, a delete of an absent
  key succeeds, and a listing page that holds no object has no \<^verbatim>\<open>Contents\<close> property.
  A continuation token is a string as long as the number of objects already listed.
  The source of a copy is read from \<^verbatim>\<open>CopySource\<close> as it is written, which is the key for
  keys without percent-escapes.

  The errors are those of the client the driver imports.  It reports the HTTP status of a
  rejection under \<^verbatim>\<open>$metadata.httpStatusCode\<close> and gives its errors no \<^verbatim>\<open>statusCode\<close>
  property: a head request for an absent key is rejected under the name \<^verbatim>\<open>NotFound\<close>, a
  get or copy of one under the name \<^verbatim>\<open>NoSuchKey\<close>, and \<^verbatim>\<open>statusCode\<close> reads as
  \<^verbatim>\<open>undefined\<close> on both.
\<close>

datatype call =
    is_copy: CopyObjectCall copy_params
  | is_delete: DeleteObjectCall object_params
  | is_head: HeadObjectCall object_params
  | is_get: GetObjectCall object_params
  | is_put: PutObjectCall put_params
  | is_list: ListObjectsV2Call list_params
  | is_presign: PresignCall sign_params

record store =
  objects :: "(string \<times> bytes) list"
  in_flight :: "(string \<times> bytes) list"
  calls :: "call list"

definition logged :: "call \<Rightarrow> store \<Rightarrow> store" where
  "logged c s = s\<lparr>calls := calls s @ [c]\<rparr>"

definition without :: "string \<Rightarrow> (string \<times> bytes) list \<Rightarrow> (string \<times> bytes) list" where
  "without k objs = filter (\<lambda>kv. fst kv \<noteq> k) objs"

definition content_bytes :: "content \<Rightarrow> bytes" where
  "content_bytes c =
     (case c of BufferContent b \<Rightarrow> b | StreamContent b \<Rightarrow> b
      | StringContent t \<Rightarrow> map of_char t)"

definition matching :: "string \<Rightarrow> (string \<times> bytes) list \<Rightarrow> (string \<times> bytes) list" where
  "matching p objs = filter (\<lambda>kv. take (length p) (fst kv) = p) objs"

definition listed :: "string \<times> bytes \<Rightarrow> s3_object" where
  "listed kv = \<lparr>obj_Key = Some (fst kv), obj_Size = length (snd kv)\<rparr>"

definition token_position :: "string option \<Rightarrow> nat" where
  "token_position tok = (case tok of None \<Rightarrow> 0 | Some t \<Rightarrow> length t)"

definition list_page :: "list_params \<Rightarrow> (string \<times> bytes) list \<Rightarrow> list_output" where
  "list_page req objs =
     (let found = matching (Prefix req) objs;
          start = token_position (ContinuationToken req);
          page = take (MaxKeys req) (drop start found)
      in \<lparr>Contents = (if page = [] then None else Some (map listed page)),
          NextContinuationToken =
            (if start + MaxKeys req < length found
             then Some (replicate (start + MaxKeys req) CHR ''t'') else None)\<rparr>)"

definition NotFound :: native_error where
  "NotFound = \<lparr>name = ''NotFound'', statusCode = None\<rparr>"

definition NoSuchKey :: native_error where
  "NoSuchKey = \<lparr>name = ''NoSuchKey'', statusCode = None\<rparr>"

definition mem_copyObject ::
  "(call \<Rightarrow> native_error option) \<Rightarrow> copy_params \<Rightarrow> store \<Rightarrow> (native_error + copy_output) \<times> store" where
  "mem_copyObject fault req s =
     (case fault (CopyObjectCall req) of
        Some e \<Rightarrow> (Inl e, logged (CopyObjectCall req) s)
      | None \<Rightarrow>
          (case map_of (objects s) (drop (length (Bucket req) + 2) (CopySource req)) of
             None \<Rightarrow> (Inl NoSuchKey, logged (CopyObjectCall req) s)
           | Some v \<Rightarrow>
               (Inr (CopyObjectOutput ''etag-copy''),
                logged (CopyObjectCall req)
                  (s\<lparr>objects := without (Key req) (objects s) @ [(Key req, v)]\<rparr>))))"

definition mem_deleteObject ::
  "(call \<Rightarrow> native_error option) \<Rightarrow> object_params \<Rightarrow> store \<Rightarrow> (native_error + delete_output) \<times> store" where
  "mem_deleteObject fault req s =
     (case fault (DeleteObjectCall req) of
        Some e \<Rightarrow> (Inl e, logged (DeleteObjectCall req) s)
      | None \<Rightarrow>
          (Inr (DeleteObjectOutput ''no-content''),
           logged (DeleteObjectCall req) (s\<lparr>objects := without (Key req) (objects s)\<rparr>)))"

definition mem_headObject ::
  "(call \<Rightarrow> native_error option) \<Rightarrow> object_params \<Rightarrow> store \<Rightarrow> (native_error + head_output) \<times> store" where
  "mem_headObject fault req s =
     (case fault (HeadObjectCall req) of
        Some e \<Rightarrow> (Inl e, logged (HeadObjectCall req) s)
      | None \<Rightarrow>
          (case map_of (objects s) (Key req) of
             None \<Rightarrow> (Inl NotFound, logged (HeadObjectCall req) s)
           | Some v \<Rightarrow>
               (Inr \<lparr>ContentLength = Some (int (length v)), LastModified = Some 0\<rparr>,
                logged (HeadObjectCall req) s)))"

definition mem_getObject ::
  "(call \<Rightarrow> native_error option) \<Rightarrow> object_params \<Rightarrow> store \<Rightarrow> (native_error + get_output) \<times> store" where
  "mem_getObject fault req s =
     (case fault (GetObjectCall req) of
        Some e \<Rightarrow> (Inl e, logged (GetObjectCall req) s)
      | None \<Rightarrow>
          (case map_of (objects s) (Key req) of
             None \<Rightarrow> (Inl NoSuchKey, logged (GetObjectCall req) s)
           | Some v \<Rightarrow>
               (Inr \<lparr>Body = Some (SdkStream (Inr v))\<rparr>, logged (GetObjectCall req) s)))"

text \<open>
  \<^verbatim>\<open>putObject\<close> starts a write and gives its promise; the call itself does not throw.  A
  write that fails is a promise that rejects.  A write that will succeed is in flight when
  the call returns: its object becomes visible when the write settles, which \<open>settle\<close>
  does for all writes in flight, in the order they were requested.
\<close>

definition mem_putObject ::
  "(call \<Rightarrow> native_error option) \<Rightarrow> put_params \<Rightarrow> store \<Rightarrow> (native_error + put_promise) \<times> store" where
  "mem_putObject fault req s =
     (case fault (PutObjectCall req) of
        Some e \<Rightarrow> (Inr (Inl e), logged (PutObjectCall req) s)
      | None \<Rightarrow>
          (Inr (Inr (PutObjectOutput ''etag-put'')),
           logged (PutObjectCall req)
             (s\<lparr>in_flight := in_flight s @ [(Key req, content_bytes (Body_in req))]\<rparr>)))"

definition written :: "string \<times> bytes \<Rightarrow> (string \<times> bytes) list \<Rightarrow> (string \<times> bytes) list" where
  "written kv objs = without (fst kv) objs @ [kv]"

definition settle :: "store \<Rightarrow> store" where
  "settle s = s\<lparr>objects := fold written (in_flight s) (objects s), in_flight := []\<rparr>"

definition mem_listObjectsV2 ::
  "(call \<Rightarrow> native_error option) \<Rightarrow> list_params \<Rightarrow> store \<Rightarrow> (native_error + list_output) \<times> store" where
  "mem_listObjectsV2 fault req s =
     (case fault (ListObjectsV2Call req) of
        Some e \<Rightarrow> (Inl e, logged (ListObjectsV2Call req) s)
      | None \<Rightarrow> (Inr (list_page req (objects s)), logged (ListObjectsV2Call req) s))"

text \<open>Signing reaches no store: it fails or gives a URL, and is not a call received.\<close>

definition mem_presign ::
  "(call \<Rightarrow> native_error option) \<Rightarrow> sign_params \<Rightarrow> SignedUrlOptions \<Rightarrow> store
     \<Rightarrow> (native_error + string) \<times> store" where
  "mem_presign fault req opts s =
     (case fault (PresignCall req) of
        Some e \<Rightarrow> (Inl e, s)
      | None \<Rightarrow> (Inr (''https://'' @ Bucket req @ ''.s3.test/'' @ Key req), s))"

definition mem_s3 :: "(call \<Rightarrow> native_error option) \<Rightarrow> store S3" where
  "mem_s3 fault =
     \<lparr>copyObject = mem_copyObject fault,
      deleteObject = mem_deleteObject fault,
      headObject = mem_headObject fault,
      getObject = mem_getObject fault,
      putObject = mem_putObject fault,
      listObjectsV2 = mem_listObjectsV2 fault,
      presign = mem_presign fault\<rparr>"

definition no_fault :: "call \<Rightarrow> native_error option" where
  "no_fault c = None"

definition failing :: "(call \<Rightarrow> bool) \<Rightarrow> native_error \<Rightarrow> call \<Rightarrow> native_error option" where
  "failing which e c = (if which c then Some e else None)"

definition AllAccessDisabled :: native_error where
  "AllAccessDisabled = \<lparr>name = ''AllAccessDisabled'', statusCode = Some 403\<rparr>"

definition NoSuchKey_without_status :: native_error where
  "NoSuchKey_without_status = \<lparr>name = ''NoSuchKey'', statusCode = None\<rparr>"

definition SlowDown_404 :: native_error where
  "SlowDown_404 = \<lparr>name = ''SlowDown'', statusCode = Some 404\<rparr>"

definition album :: store where
  "album = \<lparr>objects = [(''a.txt'', [1, 2, 3]), (''b/c.txt'', [4])], in_flight = [], calls = []\<rparr>"

text \<open>
  \<^verbatim>\<open>Buffer.from(text, encoding)\<close> and \<^verbatim>\<open>Buffer.toString(encoding)\<close> of the runtime, for the
  encodings \<^verbatim>\<open>latin1\<close> and \<^verbatim>\<open>ascii\<close> and text of characters below 256; every other
  encoding is read as \<^verbatim>\<open>latin1\<close> here.  Both encodings write one byte for each character.
  Reading, \<^verbatim>\<open>latin1\<close> gives each byte as a character, and \<^verbatim>\<open>ascii\<close> clears the highest
  bit of each byte first.
\<close>

definition node_fromString :: "string \<Rightarrow> BufferEncoding \<Rightarrow> bytes" where
  "node_fromString t enc = map of_char t"

definition node_toString :: "bytes \<Rightarrow> BufferEncoding \<Rightarrow> string" where
  "node_toString b enc =
     (if enc = ''ascii'' then map (\<lambda>w. char_of (unat w mod 128)) b
      else map (\<lambda>w. char_of (unat w)) b)"

text \<open>The driver on this store, bound to the bucket \<^verbatim>\<open>photos\<close>.\<close>

definition photos :: "(call \<Rightarrow> native_error option) \<Rightarrow> store AwsS3Storage" where
  "photos fault = \<lparr>driver = mem_s3 fault, bucket = ''photos''\<rparr>"

section \<open>Error translation\<close>

text \<open>
  C1.  \<^verbatim>\<open>handleError\<close> is total and decides by the name of the error alone:
  \<^verbatim>\<open>NoSuchBucket\<close> gives the bucket exception with the bucket, \<^verbatim>\<open>NoSuchKey\<close> the
  file-not-found exception with the path, \<^verbatim>\<open>AllAccessDisabled\<close> the permission exception
  with the path, every other name the unknown exception with that name and the path.
  In each case the exception holds the original error as its cause.
\<close>

theorem handleError_mapping:
  "(name err = ''NoSuchBucket'' \<longrightarrow>
      handleError err pathname bucketname = NoSuchBucketException err bucketname) \<and>
   (name err = ''NoSuchKey'' \<longrightarrow>
      handleError err pathname bucketname = FileNotFoundException err pathname) \<and>
   (name err = ''AllAccessDisabled'' \<longrightarrow>
      handleError err pathname bucketname = PermissionMissingException err pathname) \<and>
   (name err \<notin> {''NoSuchBucket'', ''NoSuchKey'', ''AllAccessDisabled''} \<longrightarrow>
      handleError err pathname bucketname = UnknownException err (name err) pathname) \<and>
   cause (handleError err pathname bucketname) = err"
  by simp

theorem handleError_mapping_witness:
  "handleError \<lparr>name = ''NoSuchBucket'', statusCode = Some 404\<rparr> ''a/b.txt'' ''photos''
     = NoSuchBucketException \<lparr>name = ''NoSuchBucket'', statusCode = Some 404\<rparr> ''photos'' \<and>
   handleError \<lparr>name = ''NoSuchKey'', statusCode = Some 404\<rparr> ''a/b.txt'' ''photos''
     = FileNotFoundException \<lparr>name = ''NoSuchKey'', statusCode = Some 404\<rparr> ''a/b.txt'' \<and>
   handleError \<lparr>name = ''AllAccessDisabled'', statusCode = Some 403\<rparr> ''a/b.txt'' ''photos''
     = PermissionMissingException \<lparr>name = ''AllAccessDisabled'', statusCode = Some 403\<rparr> ''a/b.txt'' \<and>
   handleError \<lparr>name = ''SlowDown'', statusCode = Some 503\<rparr> ''a/b.txt'' ''photos''
     = UnknownException \<lparr>name = ''SlowDown'', statusCode = Some 503\<rparr> ''SlowDown'' ''a/b.txt'' \<and>
   cause (handleError \<lparr>name = ''SlowDown'', statusCode = Some 503\<rparr> ''a/b.txt'' ''photos'')
     = \<lparr>name = ''SlowDown'', statusCode = Some 503\<rparr>"
  using handleError_mapping [of "\<lparr>name = ''NoSuchBucket'', statusCode = Some 404\<rparr>" "''a/b.txt''" "''photos''"]
        handleError_mapping [of "\<lparr>name = ''NoSuchKey'', statusCode = Some 404\<rparr>" "''a/b.txt''" "''photos''"]
        handleError_mapping [of "\<lparr>name = ''AllAccessDisabled'', statusCode = Some 403\<rparr>" "''a/b.txt''" "''photos''"]
        handleError_mapping [of "\<lparr>name = ''SlowDown'', statusCode = Some 503\<rparr>" "''a/b.txt''" "''photos''"]
  by simp


section \<open>Running the driver on the store in memory\<close>

lemmas mem_defs = photos_def mem_s3_def mem_copyObject_def mem_deleteObject_def
  mem_headObject_def mem_getObject_def mem_putObject_def mem_listObjectsV2_def mem_presign_def
  no_fault_def failing_def logged_def without_def album_def NotFound_def NoSuchKey_def
  AllAccessDisabled_def settle_def written_def

lemma mem_listing_call:
  "listObjectsV2 (driver (photos no_fault)) req s =
     (Inr (list_page req (objects s)), logged (ListObjectsV2Call req) s)"
  by (simp add: photos_def mem_s3_def mem_listObjectsV2_def no_fault_def)

lemma bucket_photos: "bucket (photos fault) = ''photos''"
  by (simp add: photos_def)

lemma objects_logged: "objects (logged c s) = objects s"
  by (simp add: logged_def)

lemma map_of_without_put: "map_of (without k objs @ [(k, v)]) k = Some v"
  by (induction objs) (auto simp: without_def)

lemma map_of_written: "map_of (written (k, v) objs) k = Some v"
  by (simp add: written_def map_of_without_put del: map_of_append)

section \<open>Listing\<close>

text \<open>
  Whatever \<^verbatim>\<open>flatList\<close> has yielded when it ends, by exhaustion or by an exception, is
  what it had at the start followed by one entry for each object of the pages received, in
  their order.
\<close>

lemma entries_append:
  "ys = (xs @ map entry a) @ map entry b \<Longrightarrow> \<exists>c. ys = xs @ map entry c"
  by (rule exI [of _ "a @ b"]) simp

lemma flatList_loop_yields_entries:
  assumes "flatList_loop st prefix tok yielded s = Some y"
  shows "\<exists>files. fst (fst y) = yielded @ map entry files"
proof (rule flatList_loop.raw_induct
    [where P = "\<lambda>st prefix tok yielded s y. \<exists>files. fst (fst y) = yielded @ map entry files",
      OF _ assms], goal_cases)
  case (1 loop st prefix tok yielded s y)
  have stop: "\<exists>files. yielded = yielded @ map entry files"
    by (rule exI [of _ "[]"]) simp
  have last_page: "\<exists>files. yielded @ map entry page = yielded @ map entry files" for page
    by blast
  from 1(2) show ?case
    by (auto split: prod.splits sum.splits option.splits if_splits
        simp: stop last_page dest!: 1(1) intro: entries_append)
qed

lemma flatList_yields_entries:
  assumes "flatList st prefix s = Some ((es, t), s')" and "e \<in> set es"
  shows "\<exists>f. raw e = RawObject f \<and> path e = obj_Key f"
proof -
  from flatList_loop_yields_entries [of st prefix None "[]" s "((es, t), s')"] assms
  obtain f where "e = entry f"
    by (auto simp: flatList_def)
  then show ?thesis by (auto simp: entry_def)
qed

text \<open>
  On the store in memory, a prefix that matches at least one object is listed in full:
  the loop ends without an exception after the last page, having yielded one entry for
  each matching object, in the order of the store, so as many entries as objects match,
  none twice and none left out, however many pages of 1000 that takes.
\<close>

lemma flatList_loop_mem:
  assumes "token_position tok < length (matching p (objects s))"
  shows "\<exists>s'. flatList_loop (photos no_fault) p tok yielded s =
           Some ((yielded @ map entry (map listed (drop (token_position tok) (matching p (objects s)))),
                  None), s')"
  using assms
proof (induction "length (matching p (objects s)) - token_position tok"
    arbitrary: tok yielded s rule: less_induct)
  case less
  let ?found = "matching p (objects s)"
  let ?start = "token_position tok"
  let ?req = "\<lparr>Bucket = bucket (photos no_fault), Prefix = p, ContinuationToken = tok, MaxKeys = 1000\<rparr>"
  let ?page = "take 1000 (drop ?start ?found)"
  let ?s1 = "logged (ListObjectsV2Call ?req) s"
  from less.prems have nonempty: "?page \<noteq> []" by simp
  then have contents: "Contents (list_page ?req (objects s)) = Some (map listed ?page)"
    by (simp add: list_page_def Let_def)
  show ?case
  proof (cases "?start + 1000 < length ?found")
    case True
    let ?tok' = "Some (replicate (?start + 1000) CHR ''t'')"
    from True have next_token: "NextContinuationToken (list_page ?req (objects s)) = ?tok'"
      by (simp add: list_page_def Let_def)
    have pos: "token_position ?tok' = ?start + 1000"
      by (simp add: token_position_def)
    have tr: "truthy ?tok'"
      by (simp add: truthy_def)
    have "length (matching p (objects ?s1)) - token_position ?tok'
            < length ?found - ?start"
      using True by (simp add: pos objects_logged)
    moreover have "token_position ?tok' < length (matching p (objects ?s1))"
      using True by (simp add: pos objects_logged)
    ultimately obtain s' where rec:
      "flatList_loop (photos no_fault) p ?tok' (yielded @ map entry (map listed ?page)) ?s1 =
         Some (((yielded @ map entry (map listed ?page)) @
                 map entry (map listed (drop (token_position ?tok') (matching p (objects ?s1)))),
                None), s')"
      using less.hyps [of ?s1 ?tok' "yielded @ map entry (map listed ?page)"] by blast
    have "?page @ drop (?start + 1000) ?found = drop ?start ?found"
      by (metis add.commute append_take_drop_id drop_drop)
    then have joined: "map listed ?page @ map listed (drop (?start + 1000) ?found)
        = map listed (drop ?start ?found)"
      by (metis map_append)
    have "flatList_loop (photos no_fault) p tok yielded s =
        flatList_loop (photos no_fault) p ?tok' (yielded @ map entry (map listed ?page)) ?s1"
      by (subst flatList_loop.simps) (simp add: mem_listing_call contents next_token tr)
    moreover have "(yielded @ map entry (map listed ?page)) @
          map entry (map listed (drop (?start + 1000) ?found))
        = yielded @ map entry (map listed (drop ?start ?found))"
      using joined by (metis append_assoc map_append)
    ultimately show ?thesis
      using rec by (simp only: pos objects_logged) blast
  next
    case False
    then have next_token: "NextContinuationToken (list_page ?req (objects s)) = None"
      by (simp add: list_page_def Let_def)
    from False have "?page = drop ?start ?found" by simp
    moreover have "flatList_loop (photos no_fault) p tok yielded s =
        Some ((yielded @ map entry (map listed ?page), None), ?s1)"
      by (subst flatList_loop.simps) (simp add: mem_listing_call contents next_token truthy_def)
    ultimately show ?thesis by simp
  qed
qed

lemma flatList_mem_lists_all:
  assumes "matching p (objects s) \<noteq> []"
  shows "\<exists>s'. flatList (photos no_fault) p s =
           Some ((map entry (map listed (matching p (objects s))), None), s')"
  using flatList_loop_mem [of None p s "[]"] assms
  by (simp add: flatList_def token_position_def)

lemma flatList_mem_count:
  assumes "matching p (objects s) \<noteq> []"
  shows "\<exists>es s'. flatList (photos no_fault) p s = Some ((es, None), s') \<and>
           length es = length (matching p (objects s)) \<and>
           map path es = map (\<lambda>kv. Some (fst kv)) (matching p (objects s))"
proof -
  from flatList_mem_lists_all [OF assms] obtain s' where
    "flatList (photos no_fault) p s =
       Some ((map entry (map listed (matching p (objects s))), None), s')" ..
  moreover have "map path (map entry (map listed xs)) = map (\<lambda>kv. Some (fst kv)) xs" for xs
    by (simp add: entry_def listed_def)
  ultimately show ?thesis by simp
qed

text \<open>
  A prefix that matches no object is answered by a page without \<^verbatim>\<open>Contents\<close>; iterating
  it throws inside the \<^verbatim>\<open>try\<close>, and the listing ends with the unknown exception made
  from that \<^verbatim>\<open>TypeError\<close>.
\<close>

lemma flatList_mem_nothing_matches:
  assumes "matching p (objects s) = []"
  shows "flatList (photos no_fault) p s =
           Some (([], Some (Translated (UnknownException TypeError ''TypeError'' p))),
                 logged (ListObjectsV2Call \<lparr>Bucket = ''photos'', Prefix = p,
                           ContinuationToken = None, MaxKeys = 1000\<rparr>) s)"
  using assms
  by (simp add: flatList_def flatList_loop.simps mem_listing_call list_page_def Let_def
      TypeError_def bucket_photos)

text \<open>
  C2.  The listing of a prefix under which the store holds no object: \<^verbatim>\<open>flatList\<close> does
  not end after yielding nothing, it raises.  Here no key of the two objects starts with
  \<^verbatim>\<open>zz/\<close>, the one page received has neither \<^verbatim>\<open>Contents\<close> nor a continuation token, and
  the outcome is the unknown exception for a \<^verbatim>\<open>TypeError\<close>.
\<close>

theorem flatList_of_no_object_raises:
  "length (matching ''zz/'' (objects album)) = 0 \<and>
   listObjectsV2 (driver (photos no_fault))
     \<lparr>Bucket = ''photos'', Prefix = ''zz/'', ContinuationToken = None, MaxKeys = 1000\<rparr> album =
     (Inr \<lparr>Contents = None, NextContinuationToken = None\<rparr>,
      \<lparr>objects = [(''a.txt'', [1, 2, 3]), (''b/c.txt'', [4])],
       in_flight = [], calls = [ListObjectsV2Call \<lparr>Bucket = ''photos'', Prefix = ''zz/'',
                  ContinuationToken = None, MaxKeys = 1000\<rparr>]\<rparr>) \<and>
   flatList (photos no_fault) ''zz/'' album =
     Some (([], Some (Translated
                        (UnknownException \<lparr>name = ''TypeError'', statusCode = None\<rparr>
                           ''TypeError'' ''zz/''))),
           \<lparr>objects = [(''a.txt'', [1, 2, 3]), (''b/c.txt'', [4])],
            in_flight = [], calls = [ListObjectsV2Call \<lparr>Bucket = ''photos'', Prefix = ''zz/'',
                       ContinuationToken = None, MaxKeys = 1000\<rparr>]\<rparr>)"
  by (simp add: flatList_def flatList_loop.simps mem_defs list_page_def matching_def
      token_position_def TypeError_def)

section \<open>The existence probe\<close>

text \<open>
  \<^verbatim>\<open>exists\<close> makes one head request for the location in the bucket of the driver and
  follows its outcome.  A result gives \<^verbatim>\<open>{exists: true, raw: result}\<close>.  A rejection whose
  \<^verbatim>\<open>statusCode\<close> property is 404 gives \<^verbatim>\<open>{exists: false, raw: e}\<close> and nothing is raised.
  Every other rejection is raised as \<^verbatim>\<open>handleError\<close> translates it.
\<close>

lemma exists_follows_head_request:
  assumes "headObject (driver st) \<lparr>Bucket = bucket st, Key = location\<rparr> s = (r, s')"
  shows "(\<forall>result. r = Inr result \<longrightarrow>
            exists st location s = (Inr \<lparr>raw = RawHead result, existsFlag = True\<rparr>, s')) \<and>
         (\<forall>e. r = Inl e \<and> statusCode e = Some 404 \<longrightarrow>
            exists st location s = (Inr \<lparr>raw = RawError e, existsFlag = False\<rparr>, s')) \<and>
         (\<forall>e. r = Inl e \<and> statusCode e \<noteq> Some 404 \<longrightarrow>
            exists st location s = (Inl (Translated (handleError e location (bucket st))), s'))"
  using assms by (simp add: exists_def)

text \<open>
  C3.  The probe of a location that is absent.  The store holds no object under
  \<^verbatim>\<open>gone.txt\<close>; the client rejects the head request under the name \<^verbatim>\<open>NotFound\<close>, and the
  error has no \<^verbatim>\<open>statusCode\<close> property.  The test for 404 fails on it, so \<^verbatim>\<open>exists\<close> does
  not return \<^verbatim>\<open>{exists: false}\<close>: it raises the unknown exception that \<^verbatim>\<open>handleError\<close> makes
  of that name.
\<close>

theorem exists_of_absent_key_raises:
  "map_of (objects album) ''gone.txt'' = None \<and>
   headObject (driver (photos no_fault)) \<lparr>Bucket = ''photos'', Key = ''gone.txt''\<rparr> album =
     (Inl \<lparr>name = ''NotFound'', statusCode = None\<rparr>,
      logged (HeadObjectCall \<lparr>Bucket = ''photos'', Key = ''gone.txt''\<rparr>) album) \<and>
   exists (photos no_fault) ''gone.txt'' album =
     (Inl (Translated
             (UnknownException \<lparr>name = ''NotFound'', statusCode = None\<rparr> ''NotFound''
                ''gone.txt'')),
      logged (HeadObjectCall \<lparr>Bucket = ''photos'', Key = ''gone.txt''\<rparr>) album)"
  by (simp add: exists_def mem_defs)

text \<open>
  C10.  Absence is recognised by the status code alone.  When the head request is
  rejected with status 404, \<^verbatim>\<open>exists\<close> gives \<^verbatim>\<open>{exists: false}\<close> whatever the name of the
  error.  When it is rejected under the name \<^verbatim>\<open>NoSuchKey\<close> with any other status, or none,
  the file-not-found exception for the location is raised.
\<close>

theorem exists_decides_by_status:
  assumes "headObject (driver st) \<lparr>Bucket = bucket st, Key = location\<rparr> s = (Inl e, s')"
  shows "(statusCode e = Some 404 \<longrightarrow>
            exists st location s = (Inr \<lparr>raw = RawError e, existsFlag = False\<rparr>, s')) \<and>
         (name e = ''NoSuchKey'' \<and> statusCode e \<noteq> Some 404 \<longrightarrow>
            exists st location s = (Inl (Translated (FileNotFoundException e location)), s'))"
  using assms by (simp add: exists_def)

theorem exists_decides_by_status_witness:
  "exists (photos (failing is_head SlowDown_404)) ''a.txt'' album =
     (Inr \<lparr>raw = RawError SlowDown_404, existsFlag = False\<rparr>,
      logged (HeadObjectCall \<lparr>Bucket = ''photos'', Key = ''a.txt''\<rparr>) album) \<and>
   exists (photos (failing is_head NoSuchKey_without_status)) ''gone.txt'' album =
     (Inl (Translated (FileNotFoundException NoSuchKey_without_status ''gone.txt'')),
      logged (HeadObjectCall \<lparr>Bucket = ''photos'', Key = ''gone.txt''\<rparr>) album)"
proof -
  have odd_name:
    "headObject (driver (photos (failing is_head SlowDown_404)))
       \<lparr>Bucket = bucket (photos (failing is_head SlowDown_404)), Key = ''a.txt''\<rparr> album =
       (Inl SlowDown_404, logged (HeadObjectCall \<lparr>Bucket = ''photos'', Key = ''a.txt''\<rparr>) album)"
    by (simp add: photos_def mem_s3_def mem_headObject_def failing_def album_def logged_def)
  have no_status:
    "headObject (driver (photos (failing is_head NoSuchKey_without_status)))
       \<lparr>Bucket = bucket (photos (failing is_head NoSuchKey_without_status)), Key = ''gone.txt''\<rparr>
       album =
       (Inl NoSuchKey_without_status,
        logged (HeadObjectCall \<lparr>Bucket = ''photos'', Key = ''gone.txt''\<rparr>) album)"
    by (simp add: photos_def mem_s3_def mem_headObject_def failing_def album_def logged_def)
  have "statusCode SlowDown_404 = Some 404"
    and "name NoSuchKey_without_status = ''NoSuchKey''"
    and "statusCode NoSuchKey_without_status \<noteq> Some 404"
    by (simp_all add: SlowDown_404_def NoSuchKey_without_status_def)
  then show ?thesis
    using exists_decides_by_status [OF odd_name] exists_decides_by_status [OF no_status]
    by (simp add: photos_def)
qed

section \<open>Moving\<close>

text \<open>
  C4.  \<^verbatim>\<open>move\<close> is \<^verbatim>\<open>copy\<close> of the source to the destination and then \<^verbatim>\<open>delete\<close> of the
  source, and gives \<^verbatim>\<open>{raw: undefined}\<close> when both succeed.  It is not atomic.  When the
  copy request is rejected, its translated error is raised and the store is left as that
  one rejected request left it: no delete request is made.  When the copy succeeds and
  the delete request is rejected, the translated error of the delete is raised and the
  store is left as the copy and the rejected delete left it: the copy is not undone.
\<close>

theorem move_copy_then_delete:
  "move st src dest s =
     (case copy st src dest s of
        (Inl t, s1) \<Rightarrow> (Inl t, s1)
      | (Inr c, s1) \<Rightarrow>
          (case delete st src s1 of
             (Inl t, s2) \<Rightarrow> (Inl t, s2)
           | (Inr d, s2) \<Rightarrow> (Inr \<lparr>raw = RawUndefined\<rparr>, s2))) \<and>
   (\<forall>e s1. copyObject (driver st)
              \<lparr>Bucket = bucket st, Key = dest, CopySource = ''/'' @ bucket st @ ''/'' @ src\<rparr> s
              = (Inl e, s1) \<longrightarrow>
      move st src dest s = (Inl (Translated (handleError e src (bucket st))), s1)) \<and>
   (\<forall>c s1 e s2. copyObject (driver st)
              \<lparr>Bucket = bucket st, Key = dest, CopySource = ''/'' @ bucket st @ ''/'' @ src\<rparr> s
              = (Inr c, s1) \<and>
            deleteObject (driver st) \<lparr>Bucket = bucket st, Key = src\<rparr> s1 = (Inl e, s2) \<longrightarrow>
      move st src dest s = (Inl (Translated (handleError e src (bucket st))), s2)) \<and>
   (\<forall>c s1 d s2. copyObject (driver st)
              \<lparr>Bucket = bucket st, Key = dest, CopySource = ''/'' @ bucket st @ ''/'' @ src\<rparr> s
              = (Inr c, s1) \<and>
            deleteObject (driver st) \<lparr>Bucket = bucket st, Key = src\<rparr> s1 = (Inr d, s2) \<longrightarrow>
      move st src dest s = (Inr \<lparr>raw = RawUndefined\<rparr>, s2))"
  by (simp add: move_def await_def copy_def delete_def split: prod.splits sum.splits)

theorem move_copy_then_delete_witness:
  "move (photos (failing is_copy AllAccessDisabled)) ''a.txt'' ''d.txt'' album =
     (Inl (Translated (PermissionMissingException AllAccessDisabled ''a.txt'')),
      \<lparr>objects = [(''a.txt'', [1, 2, 3]), (''b/c.txt'', [4])],
       in_flight = [], calls = [CopyObjectCall
                  \<lparr>Bucket = ''photos'', Key = ''d.txt'', CopySource = ''/photos/a.txt''\<rparr>]\<rparr>) \<and>
   move (photos (failing is_delete AllAccessDisabled)) ''a.txt'' ''d.txt'' album =
     (Inl (Translated (PermissionMissingException AllAccessDisabled ''a.txt'')),
      \<lparr>objects = [(''a.txt'', [1, 2, 3]), (''b/c.txt'', [4]), (''d.txt'', [1, 2, 3])],
       in_flight = [], calls = [CopyObjectCall
                  \<lparr>Bucket = ''photos'', Key = ''d.txt'', CopySource = ''/photos/a.txt''\<rparr>,
                DeleteObjectCall \<lparr>Bucket = ''photos'', Key = ''a.txt''\<rparr>]\<rparr>) \<and>
   move (photos no_fault) ''a.txt'' ''d.txt'' album =
     (Inr \<lparr>raw = RawUndefined\<rparr>,
      \<lparr>objects = [(''b/c.txt'', [4]), (''d.txt'', [1, 2, 3])],
       in_flight = [], calls = [CopyObjectCall
                  \<lparr>Bucket = ''photos'', Key = ''d.txt'', CopySource = ''/photos/a.txt''\<rparr>,
                DeleteObjectCall \<lparr>Bucket = ''photos'', Key = ''a.txt''\<rparr>]\<rparr>)"
proof -
  let ?copied = "\<lparr>objects = [(''a.txt'', [1, 2, 3]), (''b/c.txt'', [4]), (''d.txt'', [1, 2, 3])],
       in_flight = [], calls = [CopyObjectCall
                  \<lparr>Bucket = ''photos'', Key = ''d.txt'', CopySource = ''/photos/a.txt''\<rparr>]\<rparr>"
  have copy_denied:
    "copyObject (driver (photos (failing is_copy AllAccessDisabled)))
       \<lparr>Bucket = bucket (photos (failing is_copy AllAccessDisabled)), Key = ''d.txt'',
        CopySource = ''/'' @ bucket (photos (failing is_copy AllAccessDisabled)) @ ''/'' @ ''a.txt''\<rparr>
       album =
     (Inl AllAccessDisabled,
      \<lparr>objects = [(''a.txt'', [1, 2, 3]), (''b/c.txt'', [4])],
       in_flight = [], calls = [CopyObjectCall
                  \<lparr>Bucket = ''photos'', Key = ''d.txt'', CopySource = ''/photos/a.txt''\<rparr>]\<rparr>)"
    by (simp add: photos_def mem_s3_def mem_copyObject_def failing_def album_def logged_def)
  have copy_done: "copyObject (driver (photos f))
       \<lparr>Bucket = bucket (photos f), Key = ''d.txt'',
        CopySource = ''/'' @ bucket (photos f) @ ''/'' @ ''a.txt''\<rparr> album =
     (Inr (CopyObjectOutput ''etag-copy''), ?copied)"
    if "f = failing is_delete AllAccessDisabled \<or> f = no_fault" for f
    using that
    by (auto simp: photos_def mem_s3_def mem_copyObject_def failing_def no_fault_def album_def
        logged_def without_def)
  have delete_denied:
    "deleteObject (driver (photos (failing is_delete AllAccessDisabled)))
       \<lparr>Bucket = bucket (photos (failing is_delete AllAccessDisabled)), Key = ''a.txt''\<rparr> ?copied =
     (Inl AllAccessDisabled,
      \<lparr>objects = [(''a.txt'', [1, 2, 3]), (''b/c.txt'', [4]), (''d.txt'', [1, 2, 3])],
       in_flight = [], calls = [CopyObjectCall
                  \<lparr>Bucket = ''photos'', Key = ''d.txt'', CopySource = ''/photos/a.txt''\<rparr>,
                DeleteObjectCall \<lparr>Bucket = ''photos'', Key = ''a.txt''\<rparr>]\<rparr>)"
    by (simp add: photos_def mem_s3_def mem_deleteObject_def failing_def logged_def)
  have delete_done:
    "deleteObject (driver (photos no_fault)) \<lparr>Bucket = bucket (photos no_fault), Key = ''a.txt''\<rparr>
       ?copied =
     (Inr (DeleteObjectOutput ''no-content''),
      \<lparr>objects = [(''b/c.txt'', [4]), (''d.txt'', [1, 2, 3])],
       in_flight = [], calls = [CopyObjectCall
                  \<lparr>Bucket = ''photos'', Key = ''d.txt'', CopySource = ''/photos/a.txt''\<rparr>,
                DeleteObjectCall \<lparr>Bucket = ''photos'', Key = ''a.txt''\<rparr>]\<rparr>)"
    by (simp add: photos_def mem_s3_def mem_deleteObject_def no_fault_def logged_def without_def)
  note first = move_copy_then_delete
    [of "photos (failing is_copy AllAccessDisabled)" "''a.txt''" "''d.txt''" album,
     THEN conjunct2, THEN conjunct1, rule_format, OF copy_denied]
  note second = move_copy_then_delete
    [of "photos (failing is_delete AllAccessDisabled)" "''a.txt''" "''d.txt''" album,
     THEN conjunct2, THEN conjunct2, THEN conjunct1, rule_format,
     OF conjI [OF copy_done delete_denied]]
  note third = move_copy_then_delete
    [of "photos no_fault" "''a.txt''" "''d.txt''" album,
     THEN conjunct2, THEN conjunct2, THEN conjunct2, rule_format,
     OF conjI [OF copy_done delete_done]]
  show ?thesis
    using first second third by (simp add: photos_def AllAccessDisabled_def)
qed

section \<open>Which operations translate\<close>

text \<open>
  Where decoding and the reading of the options do not throw, every operation but
  \<^verbatim>\<open>getStream\<close> raises translated exceptions only.
\<close>

lemma flatList_loop_raises_translated:
  assumes "flatList_loop st prefix tok yielded s = Some y"
  shows "\<forall>t. snd (fst y) = Some t \<longrightarrow> (\<exists>x. t = Translated x)"
proof (rule flatList_loop.raw_induct
    [where P = "\<lambda>st prefix tok yielded s y. \<forall>t. snd (fst y) = Some t \<longrightarrow> (\<exists>x. t = Translated x)",
      OF _ assms])
  fix loop st prefix tok yielded s y
  assume "\<And>st prefix tok yielded s y. loop st prefix tok yielded s = Some y \<Longrightarrow>
            \<forall>t. snd (fst y) = Some t \<longrightarrow> (\<exists>x. t = Translated x)"
    and "(case listObjectsV2 (driver st)
            \<lparr>Bucket = bucket st, Prefix = prefix, ContinuationToken = tok, MaxKeys = 1000\<rparr> s of
          (Inl e, s') \<Rightarrow> Some ((yielded, Some (Translated (handleError e prefix (bucket st)))), s')
        | (Inr response, s') \<Rightarrow>
            (case Contents response of
               None \<Rightarrow>
                 Some ((yielded, Some (Translated (handleError TypeError prefix (bucket st)))), s')
             | Some files \<Rightarrow>
                 if truthy (NextContinuationToken response)
                 then loop st prefix (NextContinuationToken response) (yielded @ map entry files) s'
                 else Some ((yielded @ map entry files, None), s'))) = Some y"
  then show "\<forall>t. snd (fst y) = Some t \<longrightarrow> (\<exists>x. t = Translated x)"
    by (auto split: prod.splits sum.splits option.splits if_splits)
qed

lemma raised_is_translated:
  "copy st src dest s = (Inl t, s') \<Longrightarrow> \<exists>x. t = Translated x"
  "delete st location s = (Inl t, s') \<Longrightarrow> \<exists>x. t = Translated x"
  "exists st location s = (Inl t, s') \<Longrightarrow> \<exists>x. t = Translated x"
  "getBuffer st location s = (Inl t, s') \<Longrightarrow> \<exists>x. t = Translated x"
  "get toString st location enc s = (Inl t, s') \<Longrightarrow> \<exists>x. t = Translated x"
  "getSignedUrl st location options s = (Inl t, s') \<Longrightarrow> \<exists>x. t = Translated x"
  "getStat st location s = (Inl t, s') \<Longrightarrow> \<exists>x. t = Translated x"
  "move st src dest s = (Inl t, s') \<Longrightarrow> \<exists>x. t = Translated x"
  "put st location cont s = (Inl t, s') \<Longrightarrow> \<exists>x. t = Translated x"
  "flatList st prefix s = Some ((es, Some t), s') \<Longrightarrow> \<exists>x. t = Translated x"
  using flatList_loop_raises_translated [of st prefix None "[]" s "((es, Some t), s')"]
  by (auto simp: copy_def delete_def exists_def getBuffer_def get_def getSignedUrl_def getStat_def
      move_def await_def put_def flatList_def Let_def
      split: prod.splits sum.splits option.splits if_splits)

text \<open>
  C5.  \<^verbatim>\<open>getStream\<close> on a key that is absent: the rejection of the get request is raised
  as the backend threw it, where \<^verbatim>\<open>getBuffer\<close> on the same key and store raises the
  file-not-found exception.
\<close>

theorem getStream_raises_untranslated:
  "getStream (photos no_fault) ''gone.txt'' album =
     (Inl (Native \<lparr>name = ''NoSuchKey'', statusCode = None\<rparr>),
      \<lparr>objects = [(''a.txt'', [1, 2, 3]), (''b/c.txt'', [4])],
       in_flight = [], calls = [GetObjectCall \<lparr>Bucket = ''photos'', Key = ''gone.txt''\<rparr>]\<rparr>) \<and>
   getBuffer (photos no_fault) ''gone.txt'' album =
     (Inl (Translated (FileNotFoundException \<lparr>name = ''NoSuchKey'', statusCode = None\<rparr>
                         ''gone.txt'')),
      \<lparr>objects = [(''a.txt'', [1, 2, 3]), (''b/c.txt'', [4])],
       in_flight = [], calls = [GetObjectCall \<lparr>Bucket = ''photos'', Key = ''gone.txt''\<rparr>]\<rparr>)"
  by (simp add: getStream_def getBuffer_def mem_defs)

section \<open>Writing\<close>

text \<open>
  Whatever promise \<^verbatim>\<open>putObject\<close> gives, \<^verbatim>\<open>put\<close> returns at once with that promise in
  \<^verbatim>\<open>raw\<close>.
\<close>

lemma put_never_raises_a_rejection:
  "putObject (driver st) \<lparr>Bucket = bucket st, Key = location, Body_in = cont\<rparr> s = (Inr p, s')
   \<Longrightarrow> put st location cont s = (Inr \<lparr>raw = RawPromise p\<rparr>, s')"
  by (simp add: put_def)

text \<open>
  C6.  A write that the store refuses: \<^verbatim>\<open>put\<close> returns a response all the same, its
  \<^verbatim>\<open>raw\<close> the promise that rejects, and raises nothing; no object was written.
\<close>

theorem put_returns_before_write_settles:
  "put (photos (failing is_put AllAccessDisabled)) ''n.txt'' (BufferContent [104, 105]) album =
     (Inr \<lparr>raw = RawPromise (Inl \<lparr>name = ''AllAccessDisabled'', statusCode = Some 403\<rparr>)\<rparr>,
      \<lparr>objects = [(''a.txt'', [1, 2, 3]), (''b/c.txt'', [4])],
       in_flight = [], calls = [PutObjectCall \<lparr>Bucket = ''photos'', Key = ''n.txt'',
                               Body_in = BufferContent [104, 105]\<rparr>]\<rparr>)"
  by (simp add: put_def mem_defs)

section \<open>Reading text\<close>

lemma get_eq_get_spec:
  "get toString st location encoding_opt s = get_spec toString st location encoding_opt s"
  by (simp add: get_def get_spec_def await_def decoded_def Let_def split: prod.splits sum.splits)


lemma node_reads_hi: "node_toString [104, 105] ''latin1'' = ''hi''"
  unfolding node_toString_def by code_simp

lemma node_reads_bytes: "node_toString [1, 2, 3] ''utf-8'' = [CHR 0x01, CHR 0x02, CHR 0x03]"
  unfolding node_toString_def by code_simp

lemma node_reads_ascii: "node_toString [0xE9] ''ascii'' = ''i''"
  unfolding node_toString_def by code_simp



text \<open>
  On the store in memory, a put followed by a get once the write has settled reads the
  bytes that were put; the same get before the write has settled does not find them.
\<close>

lemma getBuffer_after_settled_put:
  assumes "put (photos no_fault) location (BufferContent b) s = (Inr pr, s1)"
  shows "fst (getBuffer (photos no_fault) location (settle s1)) =
           Inr \<lparr>raw = RawGet \<lparr>Body = Some (SdkStream (Inr b))\<rparr>, content = b\<rparr>"
proof -
  from assms have "in_flight s1 = in_flight s @ [(location, b)]"
    by (auto simp: put_def photos_def mem_s3_def mem_putObject_def no_fault_def logged_def
        content_bytes_def)
  then have "map_of (objects (settle s1)) location = Some b"
    by (simp add: settle_def map_of_written)
  then show ?thesis
    by (simp add: getBuffer_def photos_def mem_s3_def mem_getObject_def no_fault_def)
qed

lemma get_right_after_put_misses_the_write:
  "fst (get node_toString (photos no_fault) ''n.txt'' (Some ''latin1'')
          (snd (put (photos no_fault) ''n.txt'' (BufferContent [104, 105]) album))) =
     Inl (Translated (FileNotFoundException NoSuchKey ''n.txt''))"
  by (simp add: get_def getBuffer_def put_def mem_defs)

section \<open>The raw result\<close>

text \<open>
  Every entry \<^verbatim>\<open>flatList\<close> has yielded when it ends was made from an object in the
  \<^verbatim>\<open>Contents\<close> of a page the run received.
\<close>

lemma flatList_loop_from_pages:
  assumes "flatList_loop st prefix tok yielded s1 = Some y"
  shows "\<forall>s0. requested st prefix s0 tok s1 \<and> (\<forall>e\<in>set yielded. from_page st prefix s0 e) \<longrightarrow>
              (\<forall>e\<in>set (fst (fst y)). from_page st prefix s0 e)"
proof (rule flatList_loop.raw_induct
    [where P = "\<lambda>st prefix tok yielded s1 y.
        \<forall>s0. requested st prefix s0 tok s1 \<and> (\<forall>e\<in>set yielded. from_page st prefix s0 e) \<longrightarrow>
             (\<forall>e\<in>set (fst (fst y)). from_page st prefix s0 e)",
      OF _ assms], goal_cases)
  case (1 loop st prefix tok yielded s1 y)
  let ?request = "\<lparr>Bucket = bucket st, Prefix = prefix, ContinuationToken = tok, MaxKeys = 1000\<rparr>"
  show ?case
  proof (intro allI impI)
    fix s0
    assume start: "requested st prefix s0 tok s1 \<and> (\<forall>e\<in>set yielded. from_page st prefix s0 e)"
    have page: "\<forall>e\<in>set (yielded @ map entry files). from_page st prefix s0 e"
      if "listObjectsV2 (driver st) ?request s1 = (Inr response, s2)"
        and "Contents response = Some files" for response s2 files
    proof
      fix e assume "e \<in> set (yielded @ map entry files)"
      then consider "e \<in> set yielded" | f where "f \<in> set files" "e = entry f"
        by auto
      then show "from_page st prefix s0 e"
      proof cases
        case 1
        with start show ?thesis by blast
      next
        case 2
        with start that show ?thesis
          unfolding from_page_def entry_def by fastforce
      qed
    qed
    show "\<forall>e\<in>set (fst (fst y)). from_page st prefix s0 e"
    proof (cases "listObjectsV2 (driver st) ?request s1")
      case (Pair outcome s2)
      show ?thesis
      proof (cases outcome)
        case (Inl e)
        with Pair 1(2) start show ?thesis by auto
      next
        case (Inr response)
        show ?thesis
        proof (cases "Contents response")
          case None
          with Pair Inr 1(2) start show ?thesis by auto
        next
          case (Some files)
          note here = page [OF Pair [unfolded Inr] Some]
          show ?thesis
          proof (cases "truthy (NextContinuationToken response)")
            case True
            from start Pair Inr Some True
            have "requested st prefix s0 (NextContinuationToken response) s2"
              by (auto intro: requested.following)
            moreover from Pair Inr Some True 1(2)
            have "loop st prefix (NextContinuationToken response) (yielded @ map entry files) s2
                    = Some y"
              by simp
            ultimately show ?thesis
              using 1(1) here by blast
          next
            case False
            with Pair Inr Some 1(2) here show ?thesis by auto
          qed
        qed
      qed
    qed
  qed
qed

lemma flatList_yields_from_pages:
  assumes "flatList st prefix s = Some ((es, t), s')" and "e \<in> set es"
  shows "from_page st prefix s e"
  using flatList_loop_from_pages [of st prefix None "[]" s "((es, t), s')"] assms
  by (auto simp: flatList_def intro: requested.first)





section \<open>Deleting\<close>

text \<open>
  C9.  Whenever \<^verbatim>\<open>delete\<close> returns a response, its field \<^verbatim>\<open>wasDeleted\<close> is \<^verbatim>\<open>null\<close>, the
  indeterminate value, and neither true nor false, whether the object was there or not.
\<close>

theorem delete_wasDeleted_indeterminate:
  "delete st location s = (Inr r, s') \<Longrightarrow> wasDeleted r = None"
  by (auto simp: delete_def Let_def split: prod.splits sum.splits)

theorem delete_wasDeleted_indeterminate_witness:
  "delete (photos no_fault) ''a.txt'' album =
     (Inr \<lparr>raw = RawDelete (DeleteObjectOutput ''no-content''), wasDeleted = None\<rparr>,
      logged (DeleteObjectCall \<lparr>Bucket = ''photos'', Key = ''a.txt''\<rparr>)
        (album\<lparr>objects := [(''b/c.txt'', [4])]\<rparr>)) \<and>
   delete (photos no_fault) ''gone.txt'' album =
     (Inr \<lparr>raw = RawDelete (DeleteObjectOutput ''no-content''), wasDeleted = None\<rparr>,
      logged (DeleteObjectCall \<lparr>Bucket = ''photos'', Key = ''gone.txt''\<rparr>) album) \<and>
   wasDeleted \<lparr>raw = RawDelete (DeleteObjectOutput ''no-content''), wasDeleted = None\<rparr> = None"
proof -
  have there: "delete (photos no_fault) ''a.txt'' album =
     (Inr \<lparr>raw = RawDelete (DeleteObjectOutput ''no-content''), wasDeleted = None\<rparr>,
      logged (DeleteObjectCall \<lparr>Bucket = ''photos'', Key = ''a.txt''\<rparr>)
        (album\<lparr>objects := [(''b/c.txt'', [4])]\<rparr>))"
    by (simp add: delete_def mem_defs)
  have not_there: "delete (photos no_fault) ''gone.txt'' album =
     (Inr \<lparr>raw = RawDelete (DeleteObjectOutput ''no-content''), wasDeleted = None\<rparr>,
      logged (DeleteObjectCall \<lparr>Bucket = ''photos'', Key = ''gone.txt''\<rparr>) album)"
    by (simp add: delete_def mem_defs)
  show ?thesis
    using delete_wasDeleted_indeterminate [OF there] delete_wasDeleted_indeterminate [OF not_there]
      there not_there
    by simp
qed

end
